theory Spec2Isabelle
  imports Main "HOL-Library.Sublist"
begin

section \<open>Values, errors and the provider\<close>

text \<open>
  The data the wrapper handles are the values that the provider's client takes as keyword
  arguments and gives back as parsed responses: strings, integers, booleans, lists and
  dictionaries with string keys (in insertion order). Python's \<open>None\<close> is modelled
  by \<open>option\<close> at the places where the source has it: the tracked instance, the
  default of \<open>security_groups\<close>, and the value of a method that returns nothing.
\<close>

datatype pyval =
    PStr string
  | PInt int
  | PBool bool
  | PList "pyval list"
  | PDict "(string \<times> pyval) list"

text \<open>
  Modelled from the spec: \<open>ClientError\<close> is imported from the provider's library, which
  is not part of the sources. The spec describes it as the single provider error kind,
  carrying an opaque provider-specific code and message; the source reads them as
  \<open>err.response["Error"]["Code"]\<close> and \<open>err.response["Error"]["Message"]\<close>.

  The other constructors are the exceptions of the Python run time that the wrapper's own
  subscripts can raise, and \<open>OtherException\<close> (with the name of its class) for
  anything else that a call of the provider's library raises.
\<close>

datatype error =
    ClientError string string
  | KeyError pyval
  | IndexError
  | TypeError
  | OtherException string

type_synonym kwargs = "(string \<times> pyval) list"

text \<open>
  A request is a method of the client called with keyword arguments, or the
  \<open>wait\<close> of the waiter that \<open>get_waiter\<close> returns for a name.
\<close>

datatype request =
    ApiCall string kwargs
  | WaiterWait string kwargs

text \<open>
  The client is not part of the sources: it is a parameter. It answers a request with a
  response or raises, and it may change the provider's own state of type \<open>'p\<close>.
\<close>

type_synonym 'p client = "request \<Rightarrow> 'p \<Rightarrow> (error + pyval) \<times> 'p"

datatype logger = Root | Module

datatype level = INFO | ERROR

datatype log_record = LogRecord logger level string "pyval list"

text \<open>
  A printed line is the sequence of the parts of its f-string: literal text, and
  \<open>Fmt v\<close> for the replacement field that formats the value \<open>v\<close>.
\<close>

datatype fpart = Lit string | Fmt pyval

text \<open>
  The state: the two attributes of \<open>InstanceWrapper\<close> (\<open>ec2_client\<close> and
  \<open>instance\<close>, here \<open>instance_ref\<close>), and what the methods do to the outside:
  the provider's state, the requests issued so far, the lines printed and the calls of the
  logging module.
\<close>

record 'p state =
  ec2_client :: "'p client"
  instance_ref :: "pyval option"
  provider :: 'p
  requests :: "request list"
  stdout :: "fpart list list"
  logged :: "log_record list"

type_synonym ('a, 'p) prog = "'p state \<Rightarrow> (error + 'a) \<times> 'p state"

section \<open>Python subscripts and iteration\<close>

fun getitem_str :: "pyval \<Rightarrow> string \<Rightarrow> error + pyval" where
  "getitem_str (PDict kvs) k =
     (case map_of kvs k of None \<Rightarrow> Inl (KeyError (PStr k)) | Some v \<Rightarrow> Inr v)"
| "getitem_str (PStr s) k = Inl TypeError"
| "getitem_str (PInt n) k = Inl TypeError"
| "getitem_str (PBool b) k = Inl TypeError"
| "getitem_str (PList xs) k = Inl TypeError"

definition py_index :: "'a list \<Rightarrow> int \<Rightarrow> error + 'a" where
  "py_index xs i =
     (if 0 \<le> i then (if i < int (length xs) then Inr (xs ! nat i) else Inl IndexError)
      else (if - int (length xs) \<le> i then Inr (xs ! nat (int (length xs) + i))
            else Inl IndexError))"

fun getitem_int :: "pyval \<Rightarrow> int \<Rightarrow> error + pyval" where
  "getitem_int (PList xs) i = py_index xs i"
| "getitem_int (PStr s) i =
     (case py_index s i of Inl err \<Rightarrow> Inl err | Inr c \<Rightarrow> Inr (PStr [c]))"
| "getitem_int (PDict kvs) i = Inl (KeyError (PInt i))"
| "getitem_int (PInt n) i = Inl TypeError"
| "getitem_int (PBool b) i = Inl TypeError"

fun py_iter :: "pyval \<Rightarrow> error + pyval list" where
  "py_iter (PList xs) = Inr xs"
| "py_iter (PDict kvs) = Inr (map (\<lambda>kv. PStr (fst kv)) kvs)"
| "py_iter (PStr s) = Inr (map (\<lambda>c. PStr [c]) s)"
| "py_iter (PInt n) = Inl TypeError"
| "py_iter (PBool b) = Inl TypeError"

definition bind_result :: "error + 'a \<Rightarrow> ('a \<Rightarrow> error + 'b) \<Rightarrow> error + 'b" where
  "bind_result r f = (case r of Inl err \<Rightarrow> Inl err | Inr x \<Rightarrow> f x)"

text \<open>The comprehension \<open>[it[key] for it in items]\<close>: the first failing subscript raises.\<close>

fun comprehension_getitem :: "pyval list \<Rightarrow> string \<Rightarrow> error + pyval list" where
  "comprehension_getitem [] key = Inr []"
| "comprehension_getitem (it # items) key =
     (case getitem_str it key of
        Inl err \<Rightarrow> Inl err
      | Inr v \<Rightarrow>
          (case comprehension_getitem items key of
             Inl err \<Rightarrow> Inl err
           | Inr vs \<Rightarrow> Inr (v # vs)))"

section \<open>Statements\<close>

definition return :: "'a \<Rightarrow> ('a, 'p) prog" where
  "return x s = (Inr x, s)"

definition lift :: "error + 'a \<Rightarrow> ('a, 'p) prog" where
  "lift r s = (r, s)"

definition bindE :: "('a, 'p) prog \<Rightarrow> ('a \<Rightarrow> ('b, 'p) prog) \<Rightarrow> ('b, 'p) prog" where
  "bindE m f s = (case m s of (Inl err, s') \<Rightarrow> (Inl err, s') | (Inr x, s') \<Rightarrow> f x s')"

definition seq :: "(unit, 'p) prog \<Rightarrow> ('a, 'p) prog \<Rightarrow> ('a, 'p) prog" where
  "seq m k = bindE m (\<lambda>_. k)"

text \<open>A call of the client: the request is recorded, the provider answers.\<close>

definition call :: "request \<Rightarrow> (pyval, 'p) prog" where
  "call r s =
     (case ec2_client s r (provider s) of
        (res, p') \<Rightarrow> (res, s\<lparr>provider := p', requests := requests s @ [r]\<rparr>))"

definition log_call :: "logger \<Rightarrow> level \<Rightarrow> string \<Rightarrow> pyval list \<Rightarrow> (unit, 'p) prog" where
  "log_call lg lv fmt args s = (Inr (), s\<lparr>logged := logged s @ [LogRecord lg lv fmt args]\<rparr>)"

definition print :: "fpart list \<Rightarrow> (unit, 'p) prog" where
  "print l s = (Inr (), s\<lparr>stdout := stdout s @ [l]\<rparr>)"

definition set_instance :: "pyval option \<Rightarrow> (unit, 'p) prog" where
  "set_instance v s = (Inr (), s\<lparr>instance_ref := v\<rparr>)"

text \<open>\<open>self.instance["InstanceId"]\<close>; subscripting \<open>None\<close> is a \<open>TypeError\<close>.\<close>

definition instance_id :: "(pyval, 'p) prog" where
  "instance_id s =
     (case instance_ref s of
        None \<Rightarrow> (Inl TypeError, s)
      | Some i \<Rightarrow> (getitem_str i ''InstanceId'', s))"

text \<open>
  \<open>try: body except ClientError as err: handler; raise\<close>. Only a \<open>ClientError\<close> runs
  the handler, and the same error is raised again after it; any other exception passes.
\<close>

definition try_except_ClientError ::
  "('a, 'p) prog \<Rightarrow> (string \<Rightarrow> string \<Rightarrow> (unit, 'p) prog) \<Rightarrow> ('a, 'p) prog" where
  "try_except_ClientError body handler s =
     (case body s of
        (Inl (ClientError code msg), s1) \<Rightarrow>
          (case handler code msg s1 of
             (Inl err, s2) \<Rightarrow> (Inl err, s2)
           | (Inr _, s2) \<Rightarrow> (Inl (ClientError code msg), s2))
      | (r, s1) \<Rightarrow> (r, s1))"

section \<open>The methods of InstanceWrapper\<close>

text \<open>
  The keyword arguments of \<open>run_instances\<close>: \<open>instance_params\<close>, to which
  \<open>SecurityGroupIds\<close> is added when \<open>security_groups is not None\<close>, then
  \<open>MinCount=1, MaxCount=1\<close>.
\<close>

definition run_instances_request :: "pyval \<Rightarrow> pyval \<Rightarrow> pyval \<Rightarrow> pyval option \<Rightarrow> request" where
  "run_instances_request image_id instance_type key_pair security_groups =
     (let instance_params =
            [(''ImageId'', image_id), (''InstanceType'', instance_type), (''KeyName'', key_pair)]
            @ (case security_groups of
                 None \<Rightarrow> []
               | Some sg \<Rightarrow> [(''SecurityGroupIds'', sg)])
      in ApiCall ''run_instances''
           (instance_params @ [(''MinCount'', PInt 1), (''MaxCount'', PInt 1)]))"

text \<open>\<open>response["Instances"][0]\<close>\<close>

definition first_instance :: "pyval \<Rightarrow> error + pyval" where
  "first_instance response =
     bind_result (getitem_str response ''Instances'') (\<lambda>l. getitem_int l 0)"

definition create :: "pyval \<Rightarrow> pyval \<Rightarrow> pyval \<Rightarrow> pyval option \<Rightarrow> (pyval, 'p) prog" where
  "create image_id instance_type key_pair security_groups =
     try_except_ClientError
       (bindE (call (run_instances_request image_id instance_type key_pair security_groups))
          (\<lambda>response.
        bindE (lift (first_instance response))
          (\<lambda>i.
        seq (set_instance (Some i))
       (bindE instance_id
          (\<lambda>iid.
        seq (bindE (call (WaiterWait ''instance_running'' [(''InstanceIds'', PList [iid])]))
               (\<lambda>_. return ()))
        instance_id)))))
       (\<lambda>code msg.
          log_call Root ERROR
            (''Couldn't create instance with image %s, instance type %s, and key %s. ''
             @ ''Here's why: %s: %s'')
            [image_id, instance_type, key_pair, PStr code, PStr msg])"

text \<open>\<open>response["Reservations"][0]["Instances"][0]\<close>\<close>

definition reservation_instance :: "pyval \<Rightarrow> error + pyval" where
  "reservation_instance response =
     bind_result (getitem_str response ''Reservations'') (\<lambda>rs.
     bind_result (getitem_int rs 0) (\<lambda>r.
     bind_result (getitem_str r ''Instances'') (\<lambda>is.
     getitem_int is 0)))"

definition display :: "int \<Rightarrow> (unit, 'p) prog" where
  "display indent s =
     (case instance_ref s of
        None \<Rightarrow> log_call Module INFO ''No instance to display.'' [] s
      | Some _ \<Rightarrow>
          try_except_ClientError
            (bindE instance_id
               (\<lambda>iid.
             bindE (call (ApiCall ''describe_instances'' [(''InstanceIds'', PList [iid])]))
               (\<lambda>response.
             bindE (lift (reservation_instance response))
               (\<lambda>inst.
             let ind = replicate (nat indent) (CHR 0x09) in
             seq (bindE (lift (getitem_str inst ''InstanceId''))
                    (\<lambda>v. print [Lit ind, Lit ''ID: '', Fmt v]))
            (seq (bindE (lift (getitem_str inst ''ImageId''))
                    (\<lambda>v. print [Lit ind, Lit ''Image ID: '', Fmt v]))
            (seq (bindE (lift (getitem_str inst ''InstanceType''))
                    (\<lambda>v. print [Lit ind, Lit ''Instance type: '', Fmt v]))
            (seq (bindE (lift (getitem_str inst ''KeyName''))
                    (\<lambda>v. print [Lit ind, Lit ''Key name: '', Fmt v]))
            (seq (bindE (lift (getitem_str inst ''VpcId''))
                    (\<lambda>v. print [Lit ind, Lit ''VPC ID: '', Fmt v]))
            (seq (bindE (lift (getitem_str inst ''PublicIpAddress''))
                    (\<lambda>v. print [Lit ind, Lit ''Public IP: '', Fmt v]))
                 (bindE (lift (bind_result (getitem_str inst ''State'')
                                 (\<lambda>st. getitem_str st ''Name'')))
                    (\<lambda>v. print [Lit ind, Lit ''State: '', Fmt v])))))))))))
            (\<lambda>code msg.
               log_call Module ERROR
                 ''Couldn't display your instance. Here's why: %s: %s''
                 [PStr code, PStr msg])
            s)"

definition terminate :: "(unit, 'p) prog" where
  "terminate s =
     (case instance_ref s of
        None \<Rightarrow> log_call Module INFO ''No instance to terminate.'' [] s
      | Some _ \<Rightarrow>
          bindE instance_id
            (\<lambda>iid.
               try_except_ClientError
                 (bindE (call (ApiCall ''terminate_instances'' [(''InstanceIds'', PList [iid])]))
                    (\<lambda>_.
                  bindE (call (WaiterWait ''instance_terminated''
                                 [(''InstanceIds'', PList [iid])]))
                    (\<lambda>_.
                  set_instance None)))
                 (\<lambda>code msg.
                    log_call Root ERROR
                      ''Couldn't terminate instance %s. Here's why: %s: %s''
                      [iid, PStr code, PStr msg]))
            s)"

definition start :: "(pyval option, 'p) prog" where
  "start s =
     (case instance_ref s of
        None \<Rightarrow> seq (log_call Module INFO ''No instance to start.'' []) (return None) s
      | Some _ \<Rightarrow>
          try_except_ClientError
            (bindE instance_id
               (\<lambda>iid.
             bindE (call (ApiCall ''start_instances'' [(''InstanceIds'', PList [iid])]))
               (\<lambda>response.
             bindE instance_id
               (\<lambda>wid.
             bindE (call (WaiterWait ''instance_running'' [(''InstanceIds'', PList [wid])]))
               (\<lambda>_.
             return (Some response))))))
            (\<lambda>code msg.
               bindE instance_id
                 (\<lambda>iid.
                    log_call Module ERROR
                      ''Couldn't start instance %s. Here's why: %s: %s''
                      [iid, PStr code, PStr msg]))
            s)"

definition stop :: "(pyval option, 'p) prog" where
  "stop s =
     (case instance_ref s of
        None \<Rightarrow> seq (log_call Module INFO ''No instance to stop.'' []) (return None) s
      | Some _ \<Rightarrow>
          try_except_ClientError
            (bindE instance_id
               (\<lambda>iid.
             bindE (call (ApiCall ''stop_instances'' [(''InstanceIds'', PList [iid])]))
               (\<lambda>response.
             bindE instance_id
               (\<lambda>wid.
             bindE (call (WaiterWait ''instance_stopped'' [(''InstanceIds'', PList [wid])]))
               (\<lambda>_.
             return (Some response))))))
            (\<lambda>code msg.
               bindE instance_id
                 (\<lambda>iid.
                    log_call Module ERROR
                      ''Couldn't stop instance %s. Here's why: %s: %s''
                      [iid, PStr code, PStr msg]))
            s)"

definition get_images :: "pyval \<Rightarrow> (pyval, 'p) prog" where
  "get_images image_ids =
     try_except_ClientError
       (bindE (call (ApiCall ''describe_images'' [(''ImageIds'', image_ids)]))
          (\<lambda>response. lift (getitem_str response ''Images'')))
       (\<lambda>code msg.
          log_call Module ERROR ''Couldn't get images. Here's why: %s: %s''
            [PStr code, PStr msg])"

definition get_instance_types :: "pyval \<Rightarrow> (pyval, 'p) prog" where
  "get_instance_types architecture =
     try_except_ClientError
       (bindE (call (ApiCall ''describe_instance_types''
                  [(''Filters'', PList
                     [PDict [(''Name'', PStr ''processor-info.supported-architecture''),
                             (''Values'', PList [architecture])],
                      PDict [(''Name'', PStr ''instance-type''),
                             (''Values'', PList [PStr ''*.micro'', PStr ''*.small''])]])]))
          (\<lambda>response.
             lift (bind_result (getitem_str response ''InstanceTypes'') (\<lambda>its.
                   bind_result (py_iter its) (\<lambda>items.
                   bind_result (comprehension_getitem items ''InstanceType'') (\<lambda>names.
                   Inr (PList names)))))))
       (\<lambda>code msg.
          log_call Module ERROR ''Couldn't get instance types. Here's why: %s: %s''
            [PStr code, PStr msg])"

section \<open>Callers\<close>



text \<open>
  A test double for the client, in the manner of a stubbed client with a queue of canned
  answers: each request takes the next answer, whatever the request is.
\<close>

definition stubber :: "(error + pyval) list client" where
  "stubber r queue =
     (case queue of
        [] \<Rightarrow> (Inl (OtherException ''UnStubbedResponseError''), [])
      | answer # rest \<Rightarrow> (answer, rest))"

definition stubbed :: "pyval option \<Rightarrow> (error + pyval) list \<Rightarrow> (error + pyval) list state" where
  "stubbed tracked queue =
     \<lparr>ec2_client = stubber, instance_ref = tracked, provider = queue,
      requests = [], stdout = [], logged = []\<rparr>"

text \<open>Sample data for the stubbed client: the record of a running instance, the same
  record as the provider reports it for a stopped instance (no public address), and the
  replies that carry them.\<close>

definition running_instance :: pyval where
  "running_instance =
     PDict [(''InstanceId'', PStr ''i-0abc''), (''ImageId'', PStr ''ami-1''),
            (''InstanceType'', PStr ''t2.micro''), (''KeyName'', PStr ''key''),
            (''VpcId'', PStr ''vpc-1''), (''PublicIpAddress'', PStr ''203.0.113.7''),
            (''State'', PDict [(''Code'', PInt 16), (''Name'', PStr ''running'')])]"

definition stopped_instance :: pyval where
  "stopped_instance =
     PDict [(''InstanceId'', PStr ''i-0abc''), (''ImageId'', PStr ''ami-1''),
            (''InstanceType'', PStr ''t2.micro''), (''KeyName'', PStr ''key''),
            (''VpcId'', PStr ''vpc-1''),
            (''State'', PDict [(''Code'', PInt 80), (''Name'', PStr ''stopped'')])]"

definition run_instances_reply :: "pyval \<Rightarrow> pyval" where
  "run_instances_reply inst = PDict [(''Instances'', PList [inst])]"

definition describe_instances_reply :: "pyval list \<Rightarrow> pyval" where
  "describe_instances_reply insts =
     PDict [(''Reservations'',
            PList (map (\<lambda>inst. PDict [(''Instances'', PList [inst])]) insts))]"


text \<open>A statement issues no request when no run of it adds to the list of requests.\<close>

definition keeps_requests :: "('a, 'p) prog \<Rightarrow> bool" where
  "keeps_requests m \<longleftrightarrow> (\<forall>s. requests (snd (m s)) = requests s)"

section \<open>Facts about the statements\<close>

lemmas prog_defs = bindE_def seq_def call_def lift_def return_def log_call_def print_def
  set_instance_def instance_id_def try_except_ClientError_def

lemmas stub_defs = stubbed_def stubber_def first_instance_def reservation_instance_def
  bind_result_def py_index_def run_instances_request_def running_instance_def
  stopped_instance_def run_instances_reply_def describe_instances_reply_def

text \<open>When a statement completes normally: one equivalence per statement form.\<close>

lemma bindE_Inr_iff:
  "bindE m f s = (Inr y, s') \<longleftrightarrow> (\<exists>x s1. m s = (Inr x, s1) \<and> f x s1 = (Inr y, s'))"
  by (auto simp: bindE_def split: prod.splits sum.splits)

lemma seq_Inr_iff:
  "seq m k s = (Inr y, s') \<longleftrightarrow> (\<exists>s1. m s = (Inr (), s1) \<and> k s1 = (Inr y, s'))"
  by (simp add: seq_def bindE_Inr_iff)

lemma try_except_Inr_iff:
  "try_except_ClientError body handler s = (Inr y, s') \<longleftrightarrow> body s = (Inr y, s')"
  by (auto simp: try_except_ClientError_def split: prod.splits sum.splits error.splits)

lemma lift_Inr_iff: "lift r s = (Inr y, s') \<longleftrightarrow> r = Inr y \<and> s' = s"
  by (auto simp: lift_def)

lemma return_iff: "return x s = (r, s') \<longleftrightarrow> r = Inr x \<and> s' = s"
  by (auto simp: return_def)

lemma call_Inr_iff:
  "call r s = (Inr y, s') \<longleftrightarrow>
     (\<exists>p'. ec2_client s r (provider s) = (Inr y, p')
          \<and> s' = s\<lparr>provider := p', requests := requests s @ [r]\<rparr>)"
  by (auto simp: call_def split: prod.splits)

lemma print_iff: "print l s = (r, s') \<longleftrightarrow> r = Inr () \<and> s' = s\<lparr>stdout := stdout s @ [l]\<rparr>"
  by (auto simp: print_def)

lemma set_instance_iff:
  "set_instance v s = (r, s') \<longleftrightarrow> r = Inr () \<and> s' = s\<lparr>instance_ref := v\<rparr>"
  by (auto simp: set_instance_def)

lemma instance_id_Inr_iff:
  "instance_id s = (Inr y, s') \<longleftrightarrow>
     (\<exists>i. instance_ref s = Some i \<and> getitem_str i ''InstanceId'' = Inr y \<and> s' = s)"
  by (auto simp: instance_id_def split: option.splits)

lemma bind_result_Inr_iff:
  "bind_result r f = Inr y \<longleftrightarrow> (\<exists>x. r = Inr x \<and> f x = Inr y)"
  by (auto simp: bind_result_def split: sum.splits)

lemmas success_iffs = bindE_Inr_iff seq_Inr_iff try_except_Inr_iff lift_Inr_iff return_iff
  call_Inr_iff print_iff set_instance_iff instance_id_Inr_iff

text \<open>What a normal return of \<open>create\<close> implies.\<close>

lemma create_returns:
  assumes "create a b c sg s = (Inr r, s')"
  shows "\<exists>response p1 i w p2.
          ec2_client s (run_instances_request a b c sg) (provider s) = (Inr response, p1)
        \<and> first_instance response = Inr i
        \<and> getitem_str i ''InstanceId'' = Inr r
        \<and> ec2_client s (WaiterWait ''instance_running'' [(''InstanceIds'', PList [r])]) p1
            = (Inr w, p2)
        \<and> s' = s\<lparr>instance_ref := Some i, provider := p2,
                 requests := requests s @
                   [run_instances_request a b c sg,
                    WaiterWait ''instance_running'' [(''InstanceIds'', PList [r])]]\<rparr>"
  using assms by (clarsimp simp: create_def success_iffs)

section \<open>Calls without a tracked instance\<close>

text \<open>
  Claim C4. With no tracked instance (\<open>self.instance is None\<close>), \<open>start\<close>,
  \<open>stop\<close>, \<open>display\<close> and \<open>terminate\<close> raise nothing and return \<open>None\<close>. The
  state after the call is the state before it with one more informational log record: the
  list of requests and the provider's state are the same, so no request was issued, and
  both attributes of the wrapper are unchanged.
\<close>

theorem untracked_noop:
  assumes "instance_ref s = None"
  shows "start s =
           (Inr None,
            s\<lparr>logged := logged s @ [LogRecord Module INFO ''No instance to start.'' []]\<rparr>)
       \<and> stop s =
           (Inr None,
            s\<lparr>logged := logged s @ [LogRecord Module INFO ''No instance to stop.'' []]\<rparr>)
       \<and> display indent s =
           (Inr (),
            s\<lparr>logged := logged s @ [LogRecord Module INFO ''No instance to display.'' []]\<rparr>)
       \<and> terminate s =
           (Inr (),
            s\<lparr>logged := logged s @ [LogRecord Module INFO ''No instance to terminate.'' []]\<rparr>)"
  using assms by (simp add: start_def stop_def display_def terminate_def prog_defs)

theorem untracked_noop_witness:
  "instance_ref (stubbed None [Inr (PDict [])]) = None
   \<and> start (stubbed None [Inr (PDict [])]) =
       (Inr None,
        \<lparr>ec2_client = stubber, instance_ref = None, provider = [Inr (PDict [])],
         requests = [], stdout = [],
         logged = [LogRecord Module INFO ''No instance to start.'' []]\<rparr>)
   \<and> stop (stubbed None [Inr (PDict [])]) =
       (Inr None,
        \<lparr>ec2_client = stubber, instance_ref = None, provider = [Inr (PDict [])],
         requests = [], stdout = [],
         logged = [LogRecord Module INFO ''No instance to stop.'' []]\<rparr>)
   \<and> display 1 (stubbed None [Inr (PDict [])]) =
       (Inr (),
        \<lparr>ec2_client = stubber, instance_ref = None, provider = [Inr (PDict [])],
         requests = [], stdout = [],
         logged = [LogRecord Module INFO ''No instance to display.'' []]\<rparr>)
   \<and> terminate (stubbed None [Inr (PDict [])]) =
       (Inr (),
        \<lparr>ec2_client = stubber, instance_ref = None, provider = [Inr (PDict [])],
         requests = [], stdout = [],
         logged = [LogRecord Module INFO ''No instance to terminate.'' []]\<rparr>)"
  using untracked_noop [where s = "stubbed None [Inr (PDict [])]" and indent = 1]
  by (simp add: stubbed_def)

section \<open>Failures of the provider during create\<close>

text \<open>
  Claim C1, as amended. If the \<open>run_instances\<close> request fails, \<open>create\<close> raises the
  same error, issues no further request and leaves the tracked instance as it was (unset
  if it was unset). If the request succeeds and the wait for the running state fails,
  \<open>create\<close> raises the error of the wait, and the tracked instance is already the
  instance that the provider reported: \<open>self.instance\<close> is assigned before the wait. In
  both cases the error is logged when it is a \<open>ClientError\<close>, the only kind the method
  catches.
\<close>

theorem create_provider_failure:
  "(ec2_client s (run_instances_request a b c sg) (provider s) = (Inl e, p1) \<longrightarrow>
      create a b c sg s =
        (Inl e,
         s\<lparr>provider := p1,
           requests := requests s @ [run_instances_request a b c sg],
           logged := logged s @
             (case e of
                ClientError code msg \<Rightarrow>
                  [LogRecord Root ERROR
                     (''Couldn't create instance with image %s, instance type %s, and key %s. ''
                      @ ''Here's why: %s: %s'')
                     [a, b, c, PStr code, PStr msg]]
              | _ \<Rightarrow> [])\<rparr>))
   \<and> (ec2_client s (run_instances_request a b c sg) (provider s) = (Inr response, p1)
      \<and> first_instance response = Inr i
      \<and> getitem_str i ''InstanceId'' = Inr iid
      \<and> ec2_client s (WaiterWait ''instance_running'' [(''InstanceIds'', PList [iid])]) p1
          = (Inl e, p2) \<longrightarrow>
      create a b c sg s =
        (Inl e,
         s\<lparr>instance_ref := Some i,
           provider := p2,
           requests := requests s @
             [run_instances_request a b c sg,
              WaiterWait ''instance_running'' [(''InstanceIds'', PList [iid])]],
           logged := logged s @
             (case e of
                ClientError code msg \<Rightarrow>
                  [LogRecord Root ERROR
                     (''Couldn't create instance with image %s, instance type %s, and key %s. ''
                      @ ''Here's why: %s: %s'')
                     [a, b, c, PStr code, PStr msg]]
              | _ \<Rightarrow> [])\<rparr>))"
  by (auto simp: create_def prog_defs split: error.splits)

theorem create_provider_failure_witness:
  "ec2_client (stubbed None [Inl (ClientError ''InvalidAMIID.NotFound'' ''no such image'')])
     (run_instances_request (PStr ''ami-bad'') (PStr ''t2.micro'') (PStr ''key'') None)
     (provider (stubbed None [Inl (ClientError ''InvalidAMIID.NotFound'' ''no such image'')]))
     = (Inl (ClientError ''InvalidAMIID.NotFound'' ''no such image''), [])
   \<and> create (PStr ''ami-bad'') (PStr ''t2.micro'') (PStr ''key'') None
       (stubbed None [Inl (ClientError ''InvalidAMIID.NotFound'' ''no such image'')])
     = (Inl (ClientError ''InvalidAMIID.NotFound'' ''no such image''),
        \<lparr>ec2_client = stubber, instance_ref = None, provider = [],
         requests = [ApiCall ''run_instances''
                       [(''ImageId'', PStr ''ami-bad''), (''InstanceType'', PStr ''t2.micro''),
                        (''KeyName'', PStr ''key''), (''MinCount'', PInt 1),
                        (''MaxCount'', PInt 1)]],
         stdout = [],
         logged = [LogRecord Root ERROR
                     (''Couldn't create instance with image %s, instance type %s, and key %s. ''
                      @ ''Here's why: %s: %s'')
                     [PStr ''ami-bad'', PStr ''t2.micro'', PStr ''key'',
                      PStr ''InvalidAMIID.NotFound'', PStr ''no such image'']]\<rparr>)
   \<and> ec2_client
       (stubbed None [Inr (run_instances_reply running_instance),
                      Inl (OtherException ''WaiterError'')])
       (run_instances_request (PStr ''ami-1'') (PStr ''t2.micro'') (PStr ''key'') None)
       (provider (stubbed None [Inr (run_instances_reply running_instance),
                                Inl (OtherException ''WaiterError'')]))
     = (Inr (run_instances_reply running_instance), [Inl (OtherException ''WaiterError'')])
   \<and> first_instance (run_instances_reply running_instance) = Inr running_instance
   \<and> getitem_str running_instance ''InstanceId'' = Inr (PStr ''i-0abc'')
   \<and> ec2_client
       (stubbed None [Inr (run_instances_reply running_instance),
                      Inl (OtherException ''WaiterError'')])
       (WaiterWait ''instance_running'' [(''InstanceIds'', PList [PStr ''i-0abc''])])
       [Inl (OtherException ''WaiterError'')]
     = (Inl (OtherException ''WaiterError''), [])
   \<and> create (PStr ''ami-1'') (PStr ''t2.micro'') (PStr ''key'') None
       (stubbed None [Inr (run_instances_reply running_instance),
                      Inl (OtherException ''WaiterError'')])
     = (Inl (OtherException ''WaiterError''),
        \<lparr>ec2_client = stubber, instance_ref = Some running_instance, provider = [],
         requests = [ApiCall ''run_instances''
                       [(''ImageId'', PStr ''ami-1''), (''InstanceType'', PStr ''t2.micro''),
                        (''KeyName'', PStr ''key''), (''MinCount'', PInt 1),
                        (''MaxCount'', PInt 1)],
                     WaiterWait ''instance_running'' [(''InstanceIds'', PList [PStr ''i-0abc''])]],
         stdout = [], logged = []\<rparr>)"
  using
    create_provider_failure
      [where s = "stubbed None [Inl (ClientError ''InvalidAMIID.NotFound'' ''no such image'')]"
         and a = "PStr ''ami-bad''" and b = "PStr ''t2.micro''" and c = "PStr ''key''"
         and sg = None and e = "ClientError ''InvalidAMIID.NotFound'' ''no such image''"
         and ?p1.0 = "[]"]
    create_provider_failure
      [where s = "stubbed None [Inr (run_instances_reply running_instance),
                                Inl (OtherException ''WaiterError'')]"
         and a = "PStr ''ami-1''" and b = "PStr ''t2.micro''" and c = "PStr ''key''"
         and sg = None and e = "OtherException ''WaiterError''"
         and response = "run_instances_reply running_instance"
         and ?p1.0 = "[Inl (OtherException ''WaiterError'')]"
         and i = running_instance and iid = "PStr ''i-0abc''" and ?p2.0 = "[]"]
  by (simp add: stub_defs)

text \<open>
  The claim as stated fails where the wait fails: the client answers \<open>run_instances\<close>
  with an instance and the waiter raises. \<open>create\<close> raises, and the tracked instance,
  unset before the call, is set after it.
\<close>

theorem create_wait_failure_counterexample:
  "instance_ref
     (stubbed None [Inr (run_instances_reply running_instance),
                    Inl (ClientError ''ResourceNotReady'' ''wait failed'')]) = None
   \<and> fst (create (PStr ''ami-1'') (PStr ''t2.micro'') (PStr ''key'') None
           (stubbed None [Inr (run_instances_reply running_instance),
                          Inl (ClientError ''ResourceNotReady'' ''wait failed'')]))
     = Inl (ClientError ''ResourceNotReady'' ''wait failed'')
   \<and> instance_ref
       (snd (create (PStr ''ami-1'') (PStr ''t2.micro'') (PStr ''key'') None
               (stubbed None [Inr (run_instances_reply running_instance),
                              Inl (ClientError ''ResourceNotReady'' ''wait failed'')])))
     = Some running_instance"
  by (simp add: create_def prog_defs stub_defs)

section \<open>A successful create\<close>

text \<open>
  Claim C2, as amended. The keyword arguments of the \<open>run_instances\<close> request are the
  given image, instance type and key-pair name, the security groups exactly when they are
  given (\<open>security_groups is not None\<close>), and \<open>MinCount = MaxCount = 1\<close>. Whenever
  \<open>create\<close> returns normally, it has issued that request and then the wait for the
  \<open>instance_running\<close> state of the new instance, both answered without error and in
  this order; the tracked instance is the first instance of the provider's reply; and the
  value returned is the \<open>InstanceId\<close> of that instance, as the provider reported it.
  The method does not look at the identifier, so nothing makes it non-empty.
\<close>

theorem create_success:
  assumes "create a b c sg s = (Inr r, s')"
  shows "(\<exists>kw. run_instances_request a b c sg = ApiCall ''run_instances'' kw
            \<and> map_of kw ''ImageId'' = Some a
            \<and> map_of kw ''InstanceType'' = Some b
            \<and> map_of kw ''KeyName'' = Some c
            \<and> map_of kw ''SecurityGroupIds'' = sg
            \<and> map_of kw ''MinCount'' = Some (PInt 1)
            \<and> map_of kw ''MaxCount'' = Some (PInt 1)
            \<and> distinct (map fst kw))
    \<and> (\<exists>response p1 i w p2.
          ec2_client s (run_instances_request a b c sg) (provider s) = (Inr response, p1)
        \<and> first_instance response = Inr i
        \<and> getitem_str i ''InstanceId'' = Inr r
        \<and> ec2_client s (WaiterWait ''instance_running'' [(''InstanceIds'', PList [r])]) p1
            = (Inr w, p2)
        \<and> s' = s\<lparr>instance_ref := Some i, provider := p2,
                 requests := requests s @
                   [run_instances_request a b c sg,
                    WaiterWait ''instance_running'' [(''InstanceIds'', PList [r])]]\<rparr>)"
proof
  show "\<exists>kw. run_instances_request a b c sg = ApiCall ''run_instances'' kw
            \<and> map_of kw ''ImageId'' = Some a
            \<and> map_of kw ''InstanceType'' = Some b
            \<and> map_of kw ''KeyName'' = Some c
            \<and> map_of kw ''SecurityGroupIds'' = sg
            \<and> map_of kw ''MinCount'' = Some (PInt 1)
            \<and> map_of kw ''MaxCount'' = Some (PInt 1)
            \<and> distinct (map fst kw)"
    by (cases sg) (simp_all add: run_instances_request_def)
next
  show "\<exists>response p1 i w p2.
          ec2_client s (run_instances_request a b c sg) (provider s) = (Inr response, p1)
        \<and> first_instance response = Inr i
        \<and> getitem_str i ''InstanceId'' = Inr r
        \<and> ec2_client s (WaiterWait ''instance_running'' [(''InstanceIds'', PList [r])]) p1
            = (Inr w, p2)
        \<and> s' = s\<lparr>instance_ref := Some i, provider := p2,
                 requests := requests s @
                   [run_instances_request a b c sg,
                    WaiterWait ''instance_running'' [(''InstanceIds'', PList [r])]]\<rparr>"
    using assms by (rule create_returns)
qed

theorem create_success_witness:
  "create (PStr ''ami-1'') (PStr ''t2.micro'') (PStr ''key'') (Some (PList [PStr ''sg-1'']))
     (stubbed None [Inr (run_instances_reply running_instance), Inr (PDict [])])
   = (Inr (PStr ''i-0abc''),
      \<lparr>ec2_client = stubber, instance_ref = Some running_instance, provider = [],
       requests =
         [ApiCall ''run_instances''
            [(''ImageId'', PStr ''ami-1''), (''InstanceType'', PStr ''t2.micro''),
             (''KeyName'', PStr ''key''), (''SecurityGroupIds'', PList [PStr ''sg-1'']),
             (''MinCount'', PInt 1), (''MaxCount'', PInt 1)],
          WaiterWait ''instance_running'' [(''InstanceIds'', PList [PStr ''i-0abc''])]],
       stdout = [], logged = []\<rparr>)
   \<and> (\<exists>response p1 i w p2.
          ec2_client (stubbed None [Inr (run_instances_reply running_instance), Inr (PDict [])])
            (run_instances_request (PStr ''ami-1'') (PStr ''t2.micro'') (PStr ''key'')
               (Some (PList [PStr ''sg-1''])))
            (provider (stubbed None [Inr (run_instances_reply running_instance),
                                     Inr (PDict [])]))
            = (Inr response, p1)
        \<and> first_instance response = Inr i
        \<and> getitem_str i ''InstanceId'' = Inr (PStr ''i-0abc'')
        \<and> ec2_client (stubbed None [Inr (run_instances_reply running_instance), Inr (PDict [])])
            (WaiterWait ''instance_running'' [(''InstanceIds'', PList [PStr ''i-0abc''])]) p1
            = (Inr w, p2))"
  using
    create_success
      [where a = "PStr ''ami-1''" and b = "PStr ''t2.micro''" and c = "PStr ''key''"
         and sg = "Some (PList [PStr ''sg-1''])"
         and s = "stubbed None [Inr (run_instances_reply running_instance), Inr (PDict [])]"
         and r = "PStr ''i-0abc''"
         and s' = "\<lparr>ec2_client = stubber, instance_ref = Some running_instance, provider = [],
            requests =
              [ApiCall ''run_instances''
                 [(''ImageId'', PStr ''ami-1''), (''InstanceType'', PStr ''t2.micro''),
                  (''KeyName'', PStr ''key''), (''SecurityGroupIds'', PList [PStr ''sg-1'']),
                  (''MinCount'', PInt 1), (''MaxCount'', PInt 1)],
               WaiterWait ''instance_running'' [(''InstanceIds'', PList [PStr ''i-0abc''])]],
            stdout = [], logged = []\<rparr>"]
  by (simp add: create_def prog_defs stub_defs)

text \<open>
  The claim as stated fails on the identifier: a client that reports an instance whose
  \<open>InstanceId\<close> is the empty string makes \<open>create\<close> return normally with the empty
  string.
\<close>

theorem create_empty_identifier_counterexample:
  "fst (create (PStr ''ami-1'') (PStr ''t2.micro'') (PStr ''key'') None
          (stubbed None
             [Inr (run_instances_reply (PDict [(''InstanceId'', PStr [])])), Inr (PDict [])]))
   = Inr (PStr [])"
  by (simp add: create_def prog_defs stub_defs)

section \<open>Which methods change the tracked instance\<close>






























section \<open>Failures of the provider during terminate\<close>

text \<open>
  Claim C5, as amended. With a tracked instance that has an identifier, if the
  \<open>terminate_instances\<close> request fails, or if it succeeds and the wait for the
  \<open>instance_terminated\<close> state fails, \<open>terminate\<close> raises the same error and the
  tracked instance is left unchanged: the state after the call differs from the state
  before only in the provider's state, the requests issued and the log. The error is
  logged when it is a \<open>ClientError\<close>, the only kind the method catches; any other
  exception, such as the one a waiter raises, passes without a log record.
\<close>

theorem terminate_provider_failure:
  assumes "instance_ref s = Some i" and "getitem_str i ''InstanceId'' = Inr iid"
  shows
   "(ec2_client s (ApiCall ''terminate_instances'' [(''InstanceIds'', PList [iid])]) (provider s)
       = (Inl e, p1) \<longrightarrow>
     terminate s =
       (Inl e,
        s\<lparr>provider := p1,
          requests := requests s @ [ApiCall ''terminate_instances'' [(''InstanceIds'', PList [iid])]],
          logged := logged s @
            (case e of
               ClientError code msg \<Rightarrow>
                 [LogRecord Root ERROR ''Couldn't terminate instance %s. Here's why: %s: %s''
                    [iid, PStr code, PStr msg]]
             | _ \<Rightarrow> [])\<rparr>))
  \<and> (ec2_client s (ApiCall ''terminate_instances'' [(''InstanceIds'', PList [iid])]) (provider s)
       = (Inr r, p1)
     \<and> ec2_client s (WaiterWait ''instance_terminated'' [(''InstanceIds'', PList [iid])]) p1
       = (Inl e, p2) \<longrightarrow>
     terminate s =
       (Inl e,
        s\<lparr>provider := p2,
          requests := requests s @
            [ApiCall ''terminate_instances'' [(''InstanceIds'', PList [iid])],
             WaiterWait ''instance_terminated'' [(''InstanceIds'', PList [iid])]],
          logged := logged s @
            (case e of
               ClientError code msg \<Rightarrow>
                 [LogRecord Root ERROR ''Couldn't terminate instance %s. Here's why: %s: %s''
                    [iid, PStr code, PStr msg]]
             | _ \<Rightarrow> [])\<rparr>))"
  using assms by (auto simp: terminate_def prog_defs split: error.splits)

theorem terminate_provider_failure_witness:
  "instance_ref
     (stubbed (Some running_instance) [Inl (ClientError ''UnauthorizedOperation'' ''denied'')])
     = Some running_instance
   \<and> getitem_str running_instance ''InstanceId'' = Inr (PStr ''i-0abc'')
   \<and> ec2_client
       (stubbed (Some running_instance) [Inl (ClientError ''UnauthorizedOperation'' ''denied'')])
       (ApiCall ''terminate_instances'' [(''InstanceIds'', PList [PStr ''i-0abc''])])
       (provider (stubbed (Some running_instance)
                    [Inl (ClientError ''UnauthorizedOperation'' ''denied'')]))
     = (Inl (ClientError ''UnauthorizedOperation'' ''denied''), [])
   \<and> terminate
       (stubbed (Some running_instance) [Inl (ClientError ''UnauthorizedOperation'' ''denied'')])
     = (Inl (ClientError ''UnauthorizedOperation'' ''denied''),
        \<lparr>ec2_client = stubber, instance_ref = Some running_instance, provider = [],
         requests = [ApiCall ''terminate_instances'' [(''InstanceIds'', PList [PStr ''i-0abc''])]],
         stdout = [],
         logged = [LogRecord Root ERROR ''Couldn't terminate instance %s. Here's why: %s: %s''
                     [PStr ''i-0abc'', PStr ''UnauthorizedOperation'', PStr ''denied'']]\<rparr>)
   \<and> ec2_client
       (stubbed (Some running_instance) [Inr (PDict []), Inl (ClientError ''Throttled'' ''slow'')])
       (ApiCall ''terminate_instances'' [(''InstanceIds'', PList [PStr ''i-0abc''])])
       (provider (stubbed (Some running_instance)
                    [Inr (PDict []), Inl (ClientError ''Throttled'' ''slow'')]))
     = (Inr (PDict []), [Inl (ClientError ''Throttled'' ''slow'')])
   \<and> ec2_client
       (stubbed (Some running_instance) [Inr (PDict []), Inl (ClientError ''Throttled'' ''slow'')])
       (WaiterWait ''instance_terminated'' [(''InstanceIds'', PList [PStr ''i-0abc''])])
       [Inl (ClientError ''Throttled'' ''slow'')]
     = (Inl (ClientError ''Throttled'' ''slow''), [])
   \<and> terminate
       (stubbed (Some running_instance) [Inr (PDict []), Inl (ClientError ''Throttled'' ''slow'')])
     = (Inl (ClientError ''Throttled'' ''slow''),
        \<lparr>ec2_client = stubber, instance_ref = Some running_instance, provider = [],
         requests = [ApiCall ''terminate_instances'' [(''InstanceIds'', PList [PStr ''i-0abc''])],
                     WaiterWait ''instance_terminated''
                       [(''InstanceIds'', PList [PStr ''i-0abc''])]],
         stdout = [],
         logged = [LogRecord Root ERROR ''Couldn't terminate instance %s. Here's why: %s: %s''
                     [PStr ''i-0abc'', PStr ''Throttled'', PStr ''slow'']]\<rparr>)"
  using
    terminate_provider_failure
      [where s = "stubbed (Some running_instance)
                    [Inl (ClientError ''UnauthorizedOperation'' ''denied'')]"
         and i = running_instance and iid = "PStr ''i-0abc''"
         and e = "ClientError ''UnauthorizedOperation'' ''denied''" and ?p1.0 = "[]"]
    terminate_provider_failure
      [where s = "stubbed (Some running_instance)
                    [Inr (PDict []), Inl (ClientError ''Throttled'' ''slow'')]"
         and i = running_instance and iid = "PStr ''i-0abc''"
         and e = "ClientError ''Throttled'' ''slow''" and r = "PDict []"
         and ?p1.0 = "[Inl (ClientError ''Throttled'' ''slow'')]" and ?p2.0 = "[]"]
  by (simp add: stub_defs)

text \<open>
  The claim as stated fails on the log: the \<open>terminate_instances\<close> request succeeds, the
  waiter raises its own exception, which is not a \<open>ClientError\<close>, and \<open>terminate\<close>
  raises it without any log record. The tracked instance is unchanged.
\<close>

theorem terminate_wait_failure_counterexample:
  "terminate
     (stubbed (Some running_instance) [Inr (PDict []), Inl (OtherException ''WaiterError'')])
   = (Inl (OtherException ''WaiterError''),
      \<lparr>ec2_client = stubber, instance_ref = Some running_instance, provider = [],
       requests = [ApiCall ''terminate_instances'' [(''InstanceIds'', PList [PStr ''i-0abc''])],
                   WaiterWait ''instance_terminated''
                     [(''InstanceIds'', PList [PStr ''i-0abc''])]],
       stdout = [], logged = []\<rparr>)"
  by (simp add: terminate_def prog_defs stub_defs)

section \<open>Start and stop\<close>

text \<open>
  Claim C6. With no tracked instance \<open>start\<close> and \<open>stop\<close> return \<open>None\<close>. With a
  tracked instance whose identifier is \<open>iid\<close>, \<open>start\<close> returns normally exactly when
  the provider answers the \<open>start_instances\<close> request for \<open>[iid]\<close> and then the wait
  for the \<open>instance_running\<close> state of \<open>[iid]\<close>; these two requests, in this
  order, are all it issues, and the value returned is the response of the
  \<open>start_instances\<close> request, unchanged. The same holds for \<open>stop\<close> with
  \<open>stop_instances\<close> and \<open>instance_stopped\<close>.
\<close>

theorem start_stop_tracked:
  "(instance_ref s = None \<longrightarrow> fst (start s) = Inr None \<and> fst (stop s) = Inr None)
  \<and> (instance_ref s = Some i \<and> getitem_str i ''InstanceId'' = Inr iid \<longrightarrow>
      (start s = (Inr v, s') \<longleftrightarrow>
        (\<exists>response p1 w p2.
           ec2_client s (ApiCall ''start_instances'' [(''InstanceIds'', PList [iid])]) (provider s)
             = (Inr response, p1)
         \<and> ec2_client s (WaiterWait ''instance_running'' [(''InstanceIds'', PList [iid])]) p1
             = (Inr w, p2)
         \<and> v = Some response
         \<and> s' = s\<lparr>provider := p2,
                  requests := requests s @
                    [ApiCall ''start_instances'' [(''InstanceIds'', PList [iid])],
                     WaiterWait ''instance_running'' [(''InstanceIds'', PList [iid])]]\<rparr>))
    \<and> (stop s = (Inr v, s') \<longleftrightarrow>
        (\<exists>response p1 w p2.
           ec2_client s (ApiCall ''stop_instances'' [(''InstanceIds'', PList [iid])]) (provider s)
             = (Inr response, p1)
         \<and> ec2_client s (WaiterWait ''instance_stopped'' [(''InstanceIds'', PList [iid])]) p1
             = (Inr w, p2)
         \<and> v = Some response
         \<and> s' = s\<lparr>provider := p2,
                  requests := requests s @
                    [ApiCall ''stop_instances'' [(''InstanceIds'', PList [iid])],
                     WaiterWait ''instance_stopped'' [(''InstanceIds'', PList [iid])]]\<rparr>)))"
  by (auto simp: start_def stop_def success_iffs) (simp_all add: prog_defs)

theorem start_stop_tracked_witness:
  "instance_ref (stubbed None [Inr (PDict [])]) = None
   \<and> fst (start (stubbed None [Inr (PDict [])])) = Inr None
   \<and> fst (stop (stubbed None [Inr (PDict [])])) = Inr None
   \<and> instance_ref
       (stubbed (Some running_instance)
          [Inr (PDict [(''StartingInstances'', PList [])]), Inr (PDict [])])
     = Some running_instance
   \<and> getitem_str running_instance ''InstanceId'' = Inr (PStr ''i-0abc'')
   \<and> start
       (stubbed (Some running_instance)
          [Inr (PDict [(''StartingInstances'', PList [])]), Inr (PDict [])])
     = (Inr (Some (PDict [(''StartingInstances'', PList [])])),
        \<lparr>ec2_client = stubber, instance_ref = Some running_instance, provider = [],
         requests = [ApiCall ''start_instances'' [(''InstanceIds'', PList [PStr ''i-0abc''])],
                     WaiterWait ''instance_running'' [(''InstanceIds'', PList [PStr ''i-0abc''])]],
         stdout = [], logged = []\<rparr>)
   \<and> stop
       (stubbed (Some running_instance)
          [Inr (PDict [(''StartingInstances'', PList [])]), Inr (PDict [])])
     = (Inr (Some (PDict [(''StartingInstances'', PList [])])),
        \<lparr>ec2_client = stubber, instance_ref = Some running_instance, provider = [],
         requests = [ApiCall ''stop_instances'' [(''InstanceIds'', PList [PStr ''i-0abc''])],
                     WaiterWait ''instance_stopped'' [(''InstanceIds'', PList [PStr ''i-0abc''])]],
         stdout = [], logged = []\<rparr>)"
  using
    start_stop_tracked [where s = "stubbed None [Inr (PDict [])]"]
    start_stop_tracked
      [where s = "stubbed (Some running_instance)
                    [Inr (PDict [(''StartingInstances'', PList [])]), Inr (PDict [])]"
         and i = running_instance and iid = "PStr ''i-0abc''"
         and v = "Some (PDict [(''StartingInstances'', PList [])])"
         and s' = "\<lparr>ec2_client = stubber, instance_ref = Some running_instance, provider = [],
            requests = [ApiCall ''start_instances'' [(''InstanceIds'', PList [PStr ''i-0abc''])],
                        WaiterWait ''instance_running''
                          [(''InstanceIds'', PList [PStr ''i-0abc''])]],
            stdout = [], logged = []\<rparr>"]
  by (simp add: start_def stop_def prog_defs stub_defs)

section \<open>The requests a method issues\<close>

lemma requests_return: "keeps_requests (return x)"
  by (simp add: keeps_requests_def return_def)

lemma requests_lift: "keeps_requests (lift r)"
  by (simp add: keeps_requests_def lift_def)

lemma requests_print: "keeps_requests (print l)"
  by (simp add: keeps_requests_def print_def)

lemma requests_log_call: "keeps_requests (log_call lg lv fmt args)"
  by (simp add: keeps_requests_def log_call_def)

lemma requests_bindE:
  assumes "keeps_requests m" and "\<And>x. keeps_requests (f x)"
  shows "keeps_requests (bindE m f)"
  unfolding keeps_requests_def
proof
  fix s
  obtain r s1 where m: "m s = (r, s1)" by (cases "m s")
  with assms(1) have s1: "requests s1 = requests s"
    by (auto simp: keeps_requests_def dest: spec [of _ s])
  show "requests (snd (bindE m f s)) = requests s"
  proof (cases r)
    case (Inl err)
    with m s1 show ?thesis by (simp add: bindE_def)
  next
    case (Inr x)
    have "requests (snd (f x s1)) = requests s1"
      using assms(2) [of x] by (simp add: keeps_requests_def)
    with m Inr s1 show ?thesis by (simp add: bindE_def)
  qed
qed

lemma requests_seq:
  assumes "keeps_requests m" and "keeps_requests k"
  shows "keeps_requests (seq m k)"
  unfolding seq_def using assms by (intro requests_bindE) simp_all

lemmas requests_intros = requests_return requests_lift requests_print requests_log_call
  requests_bindE requests_seq

text \<open>
  A handler that issues no request leaves the requests of the body; and a call followed by
  statements that issue no request adds exactly the request of the call, whether the
  provider answers or raises.
\<close>

lemma requests_try_except:
  assumes "\<And>code msg. keeps_requests (handler code msg)"
  shows "requests (snd (try_except_ClientError body handler s)) = requests (snd (body s))"
proof -
  obtain r s1 where b: "body s = (r, s1)" by (cases "body s")
  show ?thesis
  proof (cases r)
    case (Inr x)
    with b show ?thesis by (simp add: try_except_ClientError_def)
  next
    case (Inl err)
    show ?thesis
    proof (cases err)
      case (ClientError code msg)
      obtain r2 s2 where h: "handler code msg s1 = (r2, s2)" by (cases "handler code msg s1")
      have "requests (snd (handler code msg s1)) = requests s1"
        using assms [of code msg] by (simp add: keeps_requests_def)
      with h have "requests s2 = requests s1" by simp
      with b Inl ClientError h show ?thesis
        by (cases r2) (simp_all add: try_except_ClientError_def)
    qed (use b Inl in \<open>simp_all add: try_except_ClientError_def\<close>)
  qed
qed

lemma requests_call_then:
  assumes "\<And>x. keeps_requests (k x)"
  shows "requests (snd (bindE (call r) k s)) = requests s @ [r]"
proof -
  obtain res p1 where c: "ec2_client s r (provider s) = (res, p1)"
    by (cases "ec2_client s r (provider s)")
  show ?thesis
  proof (cases res)
    case (Inl err)
    with c show ?thesis by (simp add: bindE_def call_def)
  next
    case (Inr x)
    have "requests (snd (k x (s\<lparr>provider := p1, requests := requests s @ [r]\<rparr>)))
          = requests (s\<lparr>provider := p1, requests := requests s @ [r]\<rparr>)"
      using assms [of x] by (simp add: keeps_requests_def)
    with c Inr show ?thesis by (simp add: bindE_def call_def)
  qed
qed



lemma get_instance_types_requests:
  "requests (snd (get_instance_types architecture s))
   = requests s @
       [ApiCall ''describe_instance_types''
          [(''Filters'', PList
             [PDict [(''Name'', PStr ''processor-info.supported-architecture''),
                     (''Values'', PList [architecture])],
              PDict [(''Name'', PStr ''instance-type''),
                     (''Values'', PList [PStr ''*.micro'', PStr ''*.small''])]])]]"
  unfolding get_instance_types_def
  by (simp add: requests_try_except requests_call_then requests_intros)

section \<open>Display\<close>




text \<open>
  Claim C10. With a tracked instance and an answer of the provider to
  \<open>describe_instances\<close>: if the list of reservations in the reply is empty, \<open>display\<close>
  raises \<open>IndexError\<close> and prints nothing; if the instance record has the first five
  fields and no \<open>PublicIpAddress\<close>, as for a stopped instance, \<open>display\<close> prints the
  five lines and then raises \<open>KeyError\<close>. Neither is a \<open>ClientError\<close>, and nothing is
  logged: the \<open>except\<close> clause does not handle them.
\<close>

theorem display_unguarded_lookup:
  assumes "instance_ref s = Some i" and "getitem_str i ''InstanceId'' = Inr iid"
    and "ec2_client s (ApiCall ''describe_instances'' [(''InstanceIds'', PList [iid])]) (provider s)
          = (Inr response, p1)"
  shows
   "(getitem_str response ''Reservations'' = Inr (PList []) \<longrightarrow>
      display indent s =
        (Inl IndexError,
         s\<lparr>provider := p1,
           requests := requests s @
             [ApiCall ''describe_instances'' [(''InstanceIds'', PList [iid])]]\<rparr>))
  \<and> (reservation_instance response = Inr inst
     \<and> getitem_str inst ''InstanceId'' = Inr v1
     \<and> getitem_str inst ''ImageId'' = Inr v2
     \<and> getitem_str inst ''InstanceType'' = Inr v3
     \<and> getitem_str inst ''KeyName'' = Inr v4
     \<and> getitem_str inst ''VpcId'' = Inr v5
     \<and> getitem_str inst ''PublicIpAddress'' = Inl (KeyError (PStr ''PublicIpAddress'')) \<longrightarrow>
      display indent s =
        (Inl (KeyError (PStr ''PublicIpAddress'')),
         s\<lparr>provider := p1,
           requests := requests s @
             [ApiCall ''describe_instances'' [(''InstanceIds'', PList [iid])]],
           stdout := stdout s @
             [[Lit (replicate (nat indent) (CHR 0x09)), Lit ''ID: '', Fmt v1],
              [Lit (replicate (nat indent) (CHR 0x09)), Lit ''Image ID: '', Fmt v2],
              [Lit (replicate (nat indent) (CHR 0x09)), Lit ''Instance type: '', Fmt v3],
              [Lit (replicate (nat indent) (CHR 0x09)), Lit ''Key name: '', Fmt v4],
              [Lit (replicate (nat indent) (CHR 0x09)), Lit ''VPC ID: '', Fmt v5]]\<rparr>))"
proof (intro conjI impI)
  assume "getitem_str response ''Reservations'' = Inr (PList [])"
  then have "reservation_instance response = Inl IndexError"
    by (simp add: reservation_instance_def bind_result_def py_index_def)
  with assms show "display indent s =
        (Inl IndexError,
         s\<lparr>provider := p1,
           requests := requests s @
             [ApiCall ''describe_instances'' [(''InstanceIds'', PList [iid])]]\<rparr>)"
    by (simp add: display_def prog_defs)
next
  assume "reservation_instance response = Inr inst
     \<and> getitem_str inst ''InstanceId'' = Inr v1
     \<and> getitem_str inst ''ImageId'' = Inr v2
     \<and> getitem_str inst ''InstanceType'' = Inr v3
     \<and> getitem_str inst ''KeyName'' = Inr v4
     \<and> getitem_str inst ''VpcId'' = Inr v5
     \<and> getitem_str inst ''PublicIpAddress'' = Inl (KeyError (PStr ''PublicIpAddress''))"
  with assms show "display indent s =
        (Inl (KeyError (PStr ''PublicIpAddress'')),
         s\<lparr>provider := p1,
           requests := requests s @
             [ApiCall ''describe_instances'' [(''InstanceIds'', PList [iid])]],
           stdout := stdout s @
             [[Lit (replicate (nat indent) (CHR 0x09)), Lit ''ID: '', Fmt v1],
              [Lit (replicate (nat indent) (CHR 0x09)), Lit ''Image ID: '', Fmt v2],
              [Lit (replicate (nat indent) (CHR 0x09)), Lit ''Instance type: '', Fmt v3],
              [Lit (replicate (nat indent) (CHR 0x09)), Lit ''Key name: '', Fmt v4],
              [Lit (replicate (nat indent) (CHR 0x09)), Lit ''VPC ID: '', Fmt v5]]\<rparr>)"
    by (simp add: display_def prog_defs Let_def)
qed

theorem display_unguarded_lookup_witness:
  "instance_ref (stubbed (Some running_instance) [Inr (describe_instances_reply [])])
     = Some running_instance
   \<and> getitem_str running_instance ''InstanceId'' = Inr (PStr ''i-0abc'')
   \<and> ec2_client (stubbed (Some running_instance) [Inr (describe_instances_reply [])])
       (ApiCall ''describe_instances'' [(''InstanceIds'', PList [PStr ''i-0abc''])])
       (provider (stubbed (Some running_instance) [Inr (describe_instances_reply [])]))
     = (Inr (describe_instances_reply []), [])
   \<and> getitem_str (describe_instances_reply []) ''Reservations'' = Inr (PList [])
   \<and> display 1 (stubbed (Some running_instance) [Inr (describe_instances_reply [])])
     = (Inl IndexError,
        \<lparr>ec2_client = stubber, instance_ref = Some running_instance, provider = [],
         requests = [ApiCall ''describe_instances'' [(''InstanceIds'', PList [PStr ''i-0abc''])]],
         stdout = [], logged = []\<rparr>)
   \<and> ec2_client
       (stubbed (Some running_instance) [Inr (describe_instances_reply [stopped_instance])])
       (ApiCall ''describe_instances'' [(''InstanceIds'', PList [PStr ''i-0abc''])])
       (provider (stubbed (Some running_instance)
                    [Inr (describe_instances_reply [stopped_instance])]))
     = (Inr (describe_instances_reply [stopped_instance]), [])
   \<and> reservation_instance (describe_instances_reply [stopped_instance]) = Inr stopped_instance
   \<and> getitem_str stopped_instance ''PublicIpAddress''
     = Inl (KeyError (PStr ''PublicIpAddress''))
   \<and> display 1
       (stubbed (Some running_instance) [Inr (describe_instances_reply [stopped_instance])])
     = (Inl (KeyError (PStr ''PublicIpAddress'')),
        \<lparr>ec2_client = stubber, instance_ref = Some running_instance, provider = [],
         requests = [ApiCall ''describe_instances'' [(''InstanceIds'', PList [PStr ''i-0abc''])]],
         stdout =
           [[Lit [CHR 0x09], Lit ''ID: '', Fmt (PStr ''i-0abc'')],
            [Lit [CHR 0x09], Lit ''Image ID: '', Fmt (PStr ''ami-1'')],
            [Lit [CHR 0x09], Lit ''Instance type: '', Fmt (PStr ''t2.micro'')],
            [Lit [CHR 0x09], Lit ''Key name: '', Fmt (PStr ''key'')],
            [Lit [CHR 0x09], Lit ''VPC ID: '', Fmt (PStr ''vpc-1'')]],
         logged = []\<rparr>)"
  using
    display_unguarded_lookup
      [where s = "stubbed (Some running_instance) [Inr (describe_instances_reply [])]"
         and i = running_instance and iid = "PStr ''i-0abc''"
         and response = "describe_instances_reply []" and ?p1.0 = "[]" and indent = 1]
    display_unguarded_lookup
      [where s = "stubbed (Some running_instance)
                    [Inr (describe_instances_reply [stopped_instance])]"
         and i = running_instance and iid = "PStr ''i-0abc''"
         and response = "describe_instances_reply [stopped_instance]" and ?p1.0 = "[]"
         and indent = 1 and inst = stopped_instance
         and ?v1.0 = "PStr ''i-0abc''" and ?v2.0 = "PStr ''ami-1''"
         and ?v3.0 = "PStr ''t2.micro''" and ?v4.0 = "PStr ''key''" and ?v5.0 = "PStr ''vpc-1''"]
  by (simp add: stub_defs)

section \<open>Image and instance-type lookups\<close>

lemma comprehension_getitem_list_all2:
  "comprehension_getitem items key = Inr names \<Longrightarrow>
   list_all2 (\<lambda>it name. getitem_str it key = Inr name) items names"
proof (induction items arbitrary: names)
  case Nil
  then show ?case by simp
next
  case (Cons it items)
  then show ?case
    by (auto split: sum.splits)
qed

lemma get_instance_types_returns:
  assumes "get_instance_types architecture s = (Inr r, s')"
  shows "\<exists>response p1 its items names.
      ec2_client s
        (ApiCall ''describe_instance_types''
           [(''Filters'', PList
              [PDict [(''Name'', PStr ''processor-info.supported-architecture''),
                      (''Values'', PList [architecture])],
               PDict [(''Name'', PStr ''instance-type''),
                      (''Values'', PList [PStr ''*.micro'', PStr ''*.small''])]])])
        (provider s) = (Inr response, p1)
    \<and> getitem_str response ''InstanceTypes'' = Inr its
    \<and> py_iter its = Inr items
    \<and> comprehension_getitem items ''InstanceType'' = Inr names
    \<and> r = PList names
    \<and> s' = s\<lparr>provider := p1,
             requests := requests s @
               [ApiCall ''describe_instance_types''
                  [(''Filters'', PList
                     [PDict [(''Name'', PStr ''processor-info.supported-architecture''),
                             (''Values'', PList [architecture])],
                      PDict [(''Name'', PStr ''instance-type''),
                             (''Values'', PList [PStr ''*.micro'', PStr ''*.small''])]])]]\<rparr>"
  using assms
  by (clarsimp simp: get_instance_types_def success_iffs bind_result_Inr_iff)

lemma list_all2_comprehension_getitem:
  "list_all2 (\<lambda>it name. getitem_str it key = Inr name) items names \<Longrightarrow>
   comprehension_getitem items key = Inr names"
  by (induction rule: list_all2_induct) simp_all

lemma comprehension_getitem_iff:
  "comprehension_getitem items key = Inr names \<longleftrightarrow>
   list_all2 (\<lambda>it name. getitem_str it key = Inr name) items names"
  using comprehension_getitem_list_all2 list_all2_comprehension_getitem by blast

text \<open>
  Claim C8, as amended. Every call of \<open>get_instance_types\<close> issues exactly one request,
  \<open>describe_instance_types\<close>, with two filters: the supported architecture is the one
  given, and the instance type matches \<open>*.micro\<close> or \<open>*.small\<close>. It returns normally
  exactly when the provider answers with a reply whose \<open>InstanceTypes\<close> can be iterated
  and every record of it has an \<open>InstanceType\<close>; the value is then the list of these
  names, one per record and in the same order. The method selects nothing itself: the
  names are micro or small types of that architecture exactly as far as the provider
  applies the filters.
\<close>

theorem get_instance_types_forwards:
  "requests (snd (get_instance_types architecture s))
     = requests s @
         [ApiCall ''describe_instance_types''
            [(''Filters'', PList
               [PDict [(''Name'', PStr ''processor-info.supported-architecture''),
                       (''Values'', PList [architecture])],
                PDict [(''Name'', PStr ''instance-type''),
                       (''Values'', PList [PStr ''*.micro'', PStr ''*.small''])]])]]
 \<and> (get_instance_types architecture s = (Inr r, s') \<longleftrightarrow>
     (\<exists>response p1 its items names.
        ec2_client s
          (ApiCall ''describe_instance_types''
             [(''Filters'', PList
                [PDict [(''Name'', PStr ''processor-info.supported-architecture''),
                        (''Values'', PList [architecture])],
                 PDict [(''Name'', PStr ''instance-type''),
                        (''Values'', PList [PStr ''*.micro'', PStr ''*.small''])]])])
          (provider s) = (Inr response, p1)
      \<and> getitem_str response ''InstanceTypes'' = Inr its
      \<and> py_iter its = Inr items
      \<and> list_all2 (\<lambda>it name. getitem_str it ''InstanceType'' = Inr name) items names
      \<and> r = PList names
      \<and> s' = s\<lparr>provider := p1,
               requests := requests s @
                 [ApiCall ''describe_instance_types''
                    [(''Filters'', PList
                       [PDict [(''Name'', PStr ''processor-info.supported-architecture''),
                               (''Values'', PList [architecture])],
                        PDict [(''Name'', PStr ''instance-type''),
                               (''Values'', PList [PStr ''*.micro'', PStr ''*.small''])]])]]\<rparr>))"
proof (intro conjI)
  show "requests (snd (get_instance_types architecture s))
     = requests s @
         [ApiCall ''describe_instance_types''
            [(''Filters'', PList
               [PDict [(''Name'', PStr ''processor-info.supported-architecture''),
                       (''Values'', PList [architecture])],
                PDict [(''Name'', PStr ''instance-type''),
                       (''Values'', PList [PStr ''*.micro'', PStr ''*.small''])]])]]"
    by (rule get_instance_types_requests)
next
  show "get_instance_types architecture s = (Inr r, s') \<longleftrightarrow>
     (\<exists>response p1 its items names.
        ec2_client s
          (ApiCall ''describe_instance_types''
             [(''Filters'', PList
                [PDict [(''Name'', PStr ''processor-info.supported-architecture''),
                        (''Values'', PList [architecture])],
                 PDict [(''Name'', PStr ''instance-type''),
                        (''Values'', PList [PStr ''*.micro'', PStr ''*.small''])]])])
          (provider s) = (Inr response, p1)
      \<and> getitem_str response ''InstanceTypes'' = Inr its
      \<and> py_iter its = Inr items
      \<and> list_all2 (\<lambda>it name. getitem_str it ''InstanceType'' = Inr name) items names
      \<and> r = PList names
      \<and> s' = s\<lparr>provider := p1,
               requests := requests s @
                 [ApiCall ''describe_instance_types''
                    [(''Filters'', PList
                       [PDict [(''Name'', PStr ''processor-info.supported-architecture''),
                               (''Values'', PList [architecture])],
                        PDict [(''Name'', PStr ''instance-type''),
                               (''Values'', PList [PStr ''*.micro'', PStr ''*.small''])]])]]\<rparr>)"
    (is "?returns \<longleftrightarrow> ?answered")
  proof
    assume ?returns
    from get_instance_types_returns [OF this] show ?answered
      by (simp add: comprehension_getitem_iff)
  next
    assume ?answered
    then show ?returns
      by (clarsimp simp: get_instance_types_def prog_defs bind_result_def
            list_all2_comprehension_getitem)
  qed
qed

theorem get_instance_types_forwards_witness:
  "get_instance_types (PStr ''x86_64'')
     (stubbed None
        [Inr (PDict [(''InstanceTypes'',
                PList [PDict [(''InstanceType'', PStr ''t2.micro'')],
                       PDict [(''InstanceType'', PStr ''t3.small'')]])])])
   = (Inr (PList [PStr ''t2.micro'', PStr ''t3.small'']),
      \<lparr>ec2_client = stubber, instance_ref = None, provider = [],
       requests =
         [ApiCall ''describe_instance_types''
            [(''Filters'', PList
               [PDict [(''Name'', PStr ''processor-info.supported-architecture''),
                       (''Values'', PList [PStr ''x86_64''])],
                PDict [(''Name'', PStr ''instance-type''),
                       (''Values'', PList [PStr ''*.micro'', PStr ''*.small''])]])]],
       stdout = [], logged = []\<rparr>)
   \<and> requests
       (snd (get_instance_types (PStr ''x86_64'')
               (stubbed None [Inl (ClientError ''AuthFailure'' ''denied'')])))
     = [ApiCall ''describe_instance_types''
          [(''Filters'', PList
             [PDict [(''Name'', PStr ''processor-info.supported-architecture''),
                     (''Values'', PList [PStr ''x86_64''])],
              PDict [(''Name'', PStr ''instance-type''),
                     (''Values'', PList [PStr ''*.micro'', PStr ''*.small''])]])]]"
  using
    get_instance_types_forwards
      [where architecture = "PStr ''x86_64''"
         and s = "stubbed None
            [Inr (PDict [(''InstanceTypes'',
                    PList [PDict [(''InstanceType'', PStr ''t2.micro'')],
                           PDict [(''InstanceType'', PStr ''t3.small'')]])])]"
         and r = "PList [PStr ''t2.micro'', PStr ''t3.small'']"
         and s' = "\<lparr>ec2_client = stubber, instance_ref = None, provider = [],
            requests =
              [ApiCall ''describe_instance_types''
                 [(''Filters'', PList
                    [PDict [(''Name'', PStr ''processor-info.supported-architecture''),
                            (''Values'', PList [PStr ''x86_64''])],
                     PDict [(''Name'', PStr ''instance-type''),
                            (''Values'', PList [PStr ''*.micro'', PStr ''*.small''])]])]],
            stdout = [], logged = []\<rparr>"]
    get_instance_types_forwards
      [where architecture = "PStr ''x86_64''"
         and s = "stubbed None [Inl (ClientError ''AuthFailure'' ''denied'')]"]
  by (simp add: get_instance_types_def prog_defs stub_defs)

text \<open>
  The claim as stated fails for a client that does not apply the filters: it answers with
  a type of another size class, and \<open>get_instance_types\<close> returns its name, which ends
  neither in \<open>micro\<close> nor in \<open>small\<close>.
\<close>

theorem get_instance_types_other_size_counterexample:
  "fst (get_instance_types (PStr ''x86_64'')
          (stubbed None
             [Inr (PDict [(''InstanceTypes'',
                     PList [PDict [(''InstanceType'', PStr ''m5.24xlarge'')]])])]))
   = Inr (PList [PStr ''m5.24xlarge''])
   \<and> \<not> suffix ''micro'' ''m5.24xlarge''
   \<and> \<not> suffix ''small'' ''m5.24xlarge''"
  by (simp add: get_instance_types_def prog_defs stub_defs suffix_to_prefix)

text \<open>
  Claim C9, as amended. \<open>get_images\<close> with the empty list sends the empty list to the
  provider and returns the \<open>Images\<close> of the reply as they are: it raises nothing when
  the provider answers, and the list is empty only if the provider's is. When the
  provider's reply to \<open>get_instance_types\<close> has no instance types, the method returns
  the empty list and raises nothing.
\<close>

theorem empty_lookups:
  "(ec2_client s (ApiCall ''describe_images'' [(''ImageIds'', PList [])]) (provider s)
      = (Inr response, p1)
    \<and> getitem_str response ''Images'' = Inr images \<longrightarrow>
    get_images (PList []) s =
      (Inr images,
       s\<lparr>provider := p1,
         requests := requests s @ [ApiCall ''describe_images'' [(''ImageIds'', PList [])]]\<rparr>))
 \<and> (ec2_client s
      (ApiCall ''describe_instance_types''
         [(''Filters'', PList
            [PDict [(''Name'', PStr ''processor-info.supported-architecture''),
                    (''Values'', PList [architecture])],
             PDict [(''Name'', PStr ''instance-type''),
                    (''Values'', PList [PStr ''*.micro'', PStr ''*.small''])]])])
      (provider s) = (Inr response', p1')
    \<and> getitem_str response' ''InstanceTypes'' = Inr (PList []) \<longrightarrow>
    get_instance_types architecture s =
      (Inr (PList []),
       s\<lparr>provider := p1',
         requests := requests s @
           [ApiCall ''describe_instance_types''
              [(''Filters'', PList
                 [PDict [(''Name'', PStr ''processor-info.supported-architecture''),
                         (''Values'', PList [architecture])],
                  PDict [(''Name'', PStr ''instance-type''),
                         (''Values'', PList [PStr ''*.micro'', PStr ''*.small''])]])]]\<rparr>))"
  by (simp add: get_images_def get_instance_types_def prog_defs bind_result_def)

theorem empty_lookups_witness:
  "ec2_client (stubbed None [Inr (PDict [(''Images'', PList [])])])
     (ApiCall ''describe_images'' [(''ImageIds'', PList [])])
     (provider (stubbed None [Inr (PDict [(''Images'', PList [])])]))
     = (Inr (PDict [(''Images'', PList [])]), [])
   \<and> getitem_str (PDict [(''Images'', PList [])]) ''Images'' = Inr (PList [])
   \<and> get_images (PList []) (stubbed None [Inr (PDict [(''Images'', PList [])])])
     = (Inr (PList []),
        \<lparr>ec2_client = stubber, instance_ref = None, provider = [],
         requests = [ApiCall ''describe_images'' [(''ImageIds'', PList [])]],
         stdout = [], logged = []\<rparr>)
   \<and> getitem_str (PDict [(''InstanceTypes'', PList [])]) ''InstanceTypes'' = Inr (PList [])
   \<and> get_instance_types (PStr ''no-such-arch'')
       (stubbed None [Inr (PDict [(''InstanceTypes'', PList [])])])
     = (Inr (PList []),
        \<lparr>ec2_client = stubber, instance_ref = None, provider = [],
         requests =
           [ApiCall ''describe_instance_types''
              [(''Filters'', PList
                 [PDict [(''Name'', PStr ''processor-info.supported-architecture''),
                         (''Values'', PList [PStr ''no-such-arch''])],
                  PDict [(''Name'', PStr ''instance-type''),
                         (''Values'', PList [PStr ''*.micro'', PStr ''*.small''])]])]],
         stdout = [], logged = []\<rparr>)"
  using
    empty_lookups
      [where s = "stubbed None [Inr (PDict [(''Images'', PList [])])]"
         and response = "PDict [(''Images'', PList [])]" and ?p1.0 = "[]"
         and images = "PList []"]
    empty_lookups
      [where s = "stubbed None [Inr (PDict [(''InstanceTypes'', PList [])])]"
         and architecture = "PStr ''no-such-arch''"
         and response' = "PDict [(''InstanceTypes'', PList [])]" and p1' = "[]"]
  by (simp add: stub_defs)

text \<open>
  The claim as stated fails on \<open>get_images\<close>: nothing in the method treats the empty
  list apart, so a client that answers the request without identifiers with images makes
  \<open>get_images\<close> of the empty list return a list that is not empty.
\<close>

theorem get_images_empty_counterexample:
  "fst (get_images (PList [])
          (stubbed None
             [Inr (PDict [(''Images'', PList [PDict [(''ImageId'', PStr ''ami-1'')]])])]))
   = Inr (PList [PDict [(''ImageId'', PStr ''ami-1'')]])
   \<and> requests
       (snd (get_images (PList [])
               (stubbed None
                  [Inr (PDict [(''Images'', PList [PDict [(''ImageId'', PStr ''ami-1'')]])])])))
     = [ApiCall ''describe_images'' [(''ImageIds'', PList [])]]"
  by (simp add: get_images_def prog_defs stub_defs)

end
